theory Spec2Isabelle
  imports Main "HOL-Library.Word"
begin

section \<open>Data model (module donut.node/http)\<close>

text \<open>
  The declarations of \<^verbatim>\<open>donut.node/http\<close>: the two string unions become datatypes, the
  interfaces become records. A field marked optional (\<^verbatim>\<open>headers?\<close>) is an \<open>option\<close>, with
  \<open>None\<close> for a property that is absent (reading it gives \<^verbatim>\<open>undefined\<close>).
\<close>

datatype SslVersion = TLS | TLS1_2 | TLS1_1 | TLS1_0 | SSL3_0

datatype HttpMethod = GET | POST | PUT | PATCH | DELETE | HEAD | CONNECT | OPTIONS | TRACE

record IHttpHeader =
  header_name :: string
  header_value :: string

text \<open>A value of type \<^verbatim>\<open>any\<close> that came out of a JSON parser or goes into one.\<close>

datatype json =
    JNull
  | JBool bool
  | JNum int
  | JStr string
  | JArr "json list"
  | JObj "(string \<times> json) list"

text \<open>
  \<^verbatim>\<open>body?: any\<close> of a request: the transport handler tells a \<^verbatim>\<open>Buffer\<close> and a string from
  every other value.
\<close>

datatype HttpBody = BodyBuffer string | BodyString string | BodyValue json

text \<open>
  \<^verbatim>\<open>ICertificate\<close> of \<^verbatim>\<open>donut.node/cert\<close>, as the transport handler reads it: a \<^verbatim>\<open>type\<close> tag
  and the fields of the PEM and PFX variants.
\<close>

record ICertificate =
  cert_type :: string
  cert :: "string option"
  key :: "string option"
  password :: "string option"
  pfx :: "string option"

record IHttpResponse =
  httpVersion :: string
  statusCode :: int
  statusMessage :: string
  data :: "json option"
  response_headers :: "IHttpHeader list"
  response_body :: string

text \<open>
  The request. Its property \<^verbatim>\<open>method\<close> is the field \<open>httpMethod\<close> here. The interface
  requires \<^verbatim>\<open>method\<close> and \<^verbatim>\<open>url\<close>, so every request has them; the other four
  properties may be absent. A property that is present with the value \<^verbatim>\<open>undefined\<close> is
  not told apart from an absent one.
\<close>

record IHttpRequest =
  sslVersion :: "SslVersion option"
  clientCert :: "ICertificate option"
  httpMethod :: HttpMethod
  url :: string
  headers :: "IHttpHeader list option"
  body :: "HttpBody option"

section \<open>Promises and errors\<close>

text \<open>
  Every \<^verbatim>\<open>throw\<close> and every rejection of the source is a value. A promise is modelled by
  the way it settles; \<open>Unsettled\<close> is a promise that neither resolves nor rejects, so
  that an \<^verbatim>\<open>await\<close> on it never resumes.
\<close>

datatype error =
    NoRequestHandler
  | TypeError
  | InvalidClientCertType string
  | OtherError string

datatype 'a promise = Fulfilled 'a | Rejected error | Unsettled

section \<open>The pipeline (src/http/http-pipeline.ts)\<close>

text \<open>
  A handler is code outside the pipeline. It receives the pipeline and the request object
  by reference, so the model hands it the request and a world state \<open>'w\<close> (everything
  else it can reach) and gets back how its promise settles, the request object as the
  handler left it, and the new world.
\<close>

type_synonym 'w HttpRequestHandler =
  "IHttpRequest \<Rightarrow> 'w \<Rightarrow> IHttpResponse option promise \<times> IHttpRequest \<times> 'w"

type_synonym 'w HttpResponseHandler =
  "IHttpRequest \<Rightarrow> IHttpResponse \<Rightarrow> 'w
     \<Rightarrow> IHttpResponse option promise \<times> IHttpRequest \<times> IHttpResponse \<times> 'w"

text \<open>
  An array is an object reached through a reference, and two holders of one reference see
  each other's writes. The store maps references to the arrays of handlers; \<open>nextRef\<close> is
  the next reference to hand out. The handlers themselves do not reach the store: a
  handler that changes a handler array while a call runs is outside this model.
\<close>

record 'w Store =
  requestArrays :: "nat \<rightharpoonup> 'w HttpRequestHandler list"
  responseArrays :: "nat \<rightharpoonup> 'w HttpResponseHandler list"
  nextRef :: nat

definition arrayAt :: "(nat \<rightharpoonup> 'a list) \<Rightarrow> nat \<Rightarrow> 'a list" where
  "arrayAt arrays ref = (case arrays ref of Some xs \<Rightarrow> xs | None \<Rightarrow> [])"

text \<open>\<^verbatim>\<open>array.push(h)\<close>, by whoever holds the reference.\<close>

definition pushRequestHandler :: "'w Store \<Rightarrow> nat \<Rightarrow> 'w HttpRequestHandler \<Rightarrow> 'w Store" where
  "pushRequestHandler store ref h =
     store \<lparr> requestArrays := (requestArrays store)(ref \<mapsto> arrayAt (requestArrays store) ref @ [h]) \<rparr>"

definition pushResponseHandler :: "'w Store \<Rightarrow> nat \<Rightarrow> 'w HttpResponseHandler \<Rightarrow> 'w Store" where
  "pushResponseHandler store ref h =
     store \<lparr> responseArrays := (responseArrays store)(ref \<mapsto> arrayAt (responseArrays store) ref @ [h]) \<rparr>"

text \<open>
  The object: the public field \<^verbatim>\<open>requestTemplate\<close> and the two private fields, which hold
  references (lines 17 to 23).
\<close>

record HttpPipeline =
  requestTemplate :: "IHttpRequest option"
  private_requestHandlers :: nat
  private_responseHandlers :: nat

text \<open>
  Lines 25 to 37, the constructor: two new arrays, and the elements of the arguments (when
  given) pushed onto them.
\<close>

definition newHttpPipeline ::
  "'w Store \<Rightarrow> nat option \<Rightarrow> nat option \<Rightarrow> HttpPipeline \<times> 'w Store" where
  "newHttpPipeline store requestHandlers responseHandlers =
     (let r1 = nextRef store;
          r2 = Suc r1;
          xs = (case requestHandlers of
                  Some a \<Rightarrow> [] @ arrayAt (requestArrays store) a
                | None \<Rightarrow> []);
          ys = (case responseHandlers of
                  Some a \<Rightarrow> [] @ arrayAt (responseArrays store) a
                | None \<Rightarrow> [])
      in (\<lparr> requestTemplate = None, private_requestHandlers = r1, private_responseHandlers = r2 \<rparr>,
          store \<lparr> requestArrays := (requestArrays store)(r1 \<mapsto> xs),
                  responseArrays := (responseArrays store)(r2 \<mapsto> ys),
                  nextRef := Suc r2 \<rparr>))"

text \<open>Lines 39 to 45, the two accessors: each returns the private field, a reference.\<close>

definition requestHandlers :: "HttpPipeline \<Rightarrow> nat" where
  "requestHandlers this = private_requestHandlers this"

definition responseHandlers :: "HttpPipeline \<Rightarrow> nat" where
  "responseHandlers this = private_responseHandlers this"

text \<open>The handler chains a call of \<^verbatim>\<open>requestAsync\<close> iterates over.\<close>

definition requestChain :: "'w Store \<Rightarrow> HttpPipeline \<Rightarrow> 'w HttpRequestHandler list" where
  "requestChain store this = arrayAt (requestArrays store) (private_requestHandlers this)"

definition responseChain :: "'w Store \<Rightarrow> HttpPipeline \<Rightarrow> 'w HttpResponseHandler list" where
  "responseChain store this = arrayAt (responseArrays store) (private_responseHandlers this)"

text \<open>
  What the call does that an observer can see, in order: the two log lines and each
  handler invocation, by the handler's index in its array.
\<close>

datatype event =
    LogStart HttpMethod string
  | LogDone int string HttpMethod string
  | CallRequestHandler nat
  | CallResponseHandler nat

text \<open>
  Lines 49 to 60. \<^verbatim>\<open>headers\<close> starts empty and receives the template's headers; when the
  request has headers, line 56 pushes \<^verbatim>\<open>...headers\<close>, the array itself. \<^verbatim>\<open>Object.assign\<close>
  then copies the template's properties and the request's over them, and \<^verbatim>\<open>headers\<close> is
  assigned last.
\<close>

definition orElse :: "'a option \<Rightarrow> 'a option \<Rightarrow> 'a option" where
  "orElse own dflt = (case own of Some v \<Rightarrow> Some v | None \<Rightarrow> dflt)"

definition mergedHeaders :: "IHttpRequest \<Rightarrow> IHttpRequest \<Rightarrow> IHttpHeader list" where
  "mergedHeaders template request =
     (let headers0 = [];
          headers1 = (case headers template of
                        Some ths \<Rightarrow> headers0 @ ths
                      | None \<Rightarrow> headers0);
          headers2 = (case headers request of
                        Some _ \<Rightarrow> headers1 @ headers1
                      | None \<Rightarrow> headers1)
      in headers2)"

definition mergeTemplate :: "IHttpRequest \<Rightarrow> IHttpRequest \<Rightarrow> IHttpRequest" where
  "mergeTemplate template request =
     \<lparr> sslVersion = orElse (sslVersion request) (sslVersion template),
       clientCert = orElse (clientCert request) (clientCert template),
       httpMethod = httpMethod request,
       url = url request,
       headers = Some (mergedHeaders template request),
       body = orElse (body request) (body template) \<rparr>"

definition effectiveRequest :: "IHttpRequest option \<Rightarrow> IHttpRequest \<Rightarrow> IHttpRequest" where
  "effectiveRequest template request =
     (case template of
        Some t \<Rightarrow> mergeTemplate t request
      | None \<Rightarrow> request)"

text \<open>
  Lines 67 to 73: the loop over the request handlers. \<^verbatim>\<open>await\<close> on a rejected promise
  throws out of the loop, on an unsettled one it never returns; a response ends the loop.
\<close>

fun dispatch ::
  "'w HttpRequestHandler list \<Rightarrow> nat \<Rightarrow> IHttpRequest \<Rightarrow> 'w
     \<Rightarrow> IHttpResponse option promise \<times> event list \<times> IHttpRequest \<times> 'w" where
  "dispatch [] i request w = (Fulfilled None, [], request, w)"
| "dispatch (h # hs) i request w =
     (case h request w of (settled, request', w') \<Rightarrow>
        (case settled of
           Fulfilled None \<Rightarrow>
             (case dispatch hs (Suc i) request' w' of (r, tr, request'', w'') \<Rightarrow>
                (r, CallRequestHandler i # tr, request'', w''))
         | Fulfilled (Some response) \<Rightarrow>
             (Fulfilled (Some response), [CallRequestHandler i], request', w')
         | Rejected e \<Rightarrow> (Rejected e, [CallRequestHandler i], request', w')
         | Unsettled \<Rightarrow> (Unsettled, [CallRequestHandler i], request', w')))"

text \<open>
  Lines 81 to 83: \<^verbatim>\<open>response = await handleResponseAsync(this, request, response) || response\<close>.
\<close>

fun postProcess ::
  "'w HttpResponseHandler list \<Rightarrow> nat \<Rightarrow> IHttpRequest \<Rightarrow> IHttpResponse \<Rightarrow> 'w
     \<Rightarrow> IHttpResponse promise \<times> event list \<times> IHttpRequest \<times> 'w" where
  "postProcess [] i request response w = (Fulfilled response, [], request, w)"
| "postProcess (h # hs) i request response w =
     (case h request response w of (settled, request', response', w') \<Rightarrow>
        (case settled of
           Fulfilled replacement \<Rightarrow>
             (case postProcess hs (Suc i) request'
                     (case replacement of Some r \<Rightarrow> r | None \<Rightarrow> response') w' of
                (r, tr, request'', w'') \<Rightarrow> (r, CallResponseHandler i # tr, request'', w''))
         | Rejected e \<Rightarrow> (Rejected e, [CallResponseHandler i], request', w')
         | Unsettled \<Rightarrow> (Unsettled, [CallResponseHandler i], request', w')))"

text \<open>
  Lines 47 to 86. The result is how the promise of the call settles, what the call did,
  the world after it, and the store after it.
\<close>

definition requestAsync ::
  "'w Store \<Rightarrow> HttpPipeline \<Rightarrow> IHttpRequest \<Rightarrow> 'w
     \<Rightarrow> IHttpResponse promise \<times> event list \<times> 'w \<times> 'w Store" where
  "requestAsync store this request0 w =
     (let request = effectiveRequest (requestTemplate this) request0;
          start = LogStart (httpMethod request) (url request)
      in case dispatch (requestChain store this) 0 request w of (settled, tr, request', w') \<Rightarrow>
           (case settled of
              Rejected e \<Rightarrow> (Rejected e, start # tr, w', store)
            | Unsettled \<Rightarrow> (Unsettled, start # tr, w', store)
            | Fulfilled None \<Rightarrow> (Rejected NoRequestHandler, start # tr, w', store)
            | Fulfilled (Some response) \<Rightarrow>
                (case postProcess (responseChain store this) 0 request' response w' of
                   (r, tr', request'', w'') \<Rightarrow>
                     (r,
                      start # tr
                        @ LogDone (statusCode response) (statusMessage response)
                            (httpMethod request') (url request')
                        # tr',
                      w'', store))))"

text \<open>
  The handlers before the first responder: each is invoked on the request and world the
  previous one left and resolves with no value. \<open>declineAll\<close> gives the request and the
  world after the last of them, and \<open>None\<close> when one of them does anything else.
\<close>

fun declineAll ::
  "'w HttpRequestHandler list \<Rightarrow> IHttpRequest \<Rightarrow> 'w \<Rightarrow> (IHttpRequest \<times> 'w) option" where
  "declineAll [] request w = Some (request, w)"
| "declineAll (h # hs) request w =
     (case h request w of (settled, request', w') \<Rightarrow>
        (case settled of
           Fulfilled None \<Rightarrow> declineAll hs request' w'
         | Fulfilled (Some response) \<Rightarrow> None
         | Rejected e \<Rightarrow> None
         | Unsettled \<Rightarrow> None))"

section \<open>The per-site authentication handler (src/unnamed/part_000)\<close>

text \<open>
  \<^verbatim>\<open>siteMap\<close> holds, per site, a token promise or one of the strings \<^verbatim>\<open>"Retry"\<close> and
  \<^verbatim>\<open>"NotSupported"\<close>. A promise is named by a number, handed out when line 82 creates it.
  The \<^verbatim>\<open>then\<close> callback of line 84 closes over the site identifier: \<open>attempts\<close> keeps,
  for every token promise that has not settled, the site its callback will write to.
\<close>

datatype SiteRecord = InFlight nat | Retry | NotSupported

record Coordinator =
  siteMap :: "string \<rightharpoonup> SiteRecord"
  attempts :: "nat \<rightharpoonup> string"
  nextPromise :: nat

definition createResponseHandler :: Coordinator where
  "createResponseHandler = \<lparr> siteMap = Map.empty, attempts = Map.empty, nextPromise = 0 \<rparr>"

text \<open>
  \<^verbatim>\<open>url.parse(request.url).host\<close> belongs to the runtime and is a parameter: it gives a
  string, or \<^verbatim>\<open>null\<close> for a URL without a host. Used as a property key, \<^verbatim>\<open>null\<close> is the
  string \<^verbatim>\<open>"null"\<close>.
\<close>

definition siteKey :: "string option \<Rightarrow> string" where
  "siteKey host = (case host of Some h \<Rightarrow> h | None \<Rightarrow> ''null'')"

text \<open>What the handler hands back to the pipeline, line by line.\<close>

datatype HandlerResult =
    ReturnUndefined                 \<comment> \<open>lines 63 and 78: \<^verbatim>\<open>return undefined\<close>\<close>
  | AwaitThenRetry nat              \<comment> \<open>line 72: \<^verbatim>\<open>record.then(() => pipeline.requestAsync(request))\<close>\<close>
  | RetryNow                        \<comment> \<open>line 75: \<^verbatim>\<open>pipeline.requestAsync(request)\<close>\<close>
  | ReturnToken nat                 \<comment> \<open>line 86: the promise of \<^verbatim>\<open>acquireTokenAsync\<close>\<close>
  | Throws error                    \<comment> \<open>an exception out of the handler\<close>

definition hasAuthorization :: "IHttpHeader list \<Rightarrow> bool" where
  "hasAuthorization hs =
     (List.find (\<lambda>header. header_name header = ''Authorization'') hs \<noteq> None)"

text \<open>Lines 82 to 86: a new attempt is started and recorded under the site.\<close>

definition startAttempt :: "Coordinator \<Rightarrow> string \<Rightarrow> HandlerResult \<times> Coordinator" where
  "startAttempt c siteId =
     (let tokenPromise = nextPromise c
      in (ReturnToken tokenPromise,
          c \<lparr> siteMap := (siteMap c)(siteId \<mapsto> InFlight tokenPromise),
              attempts := (attempts c)(tokenPromise \<mapsto> siteId),
              nextPromise := Suc tokenPromise \<rparr>))"

text \<open>
  Lines 61 to 87. \<^verbatim>\<open>request.headers.find\<close> on a request without \<^verbatim>\<open>headers\<close> is a
  property read on \<^verbatim>\<open>undefined\<close>: a TypeError.
\<close>

definition handleResponse ::
  "(string \<Rightarrow> string option) \<Rightarrow> Coordinator \<Rightarrow> IHttpRequest \<Rightarrow> IHttpResponse
     \<Rightarrow> HandlerResult \<times> Coordinator" where
  "handleResponse url_host c request response =
     (if statusCode response \<noteq> 401 \<and> statusCode response \<noteq> 403 then (ReturnUndefined, c)
      else
        let siteId = siteKey (url_host (url request))
        in case headers request of
             None \<Rightarrow> (Throws TypeError, c)
           | Some hs \<Rightarrow>
               if \<not> hasAuthorization hs then
                 (case siteMap c siteId of
                    Some (InFlight record) \<Rightarrow> (AwaitThenRetry record, c)
                  | Some Retry \<Rightarrow> (RetryNow, c)
                  | Some NotSupported \<Rightarrow> (ReturnUndefined, c)
                  | None \<Rightarrow> startAttempt c siteId)
               else startAttempt c siteId)"

text \<open>
  Line 84, run when the token promise settles: the callback is registered for fulfilment
  only, so a rejection runs nothing.
\<close>

definition tokenSettled ::
  "Coordinator \<Rightarrow> nat \<Rightarrow> IHttpResponse option promise \<Rightarrow> Coordinator" where
  "tokenSettled c tokenPromise outcome =
     (case attempts c tokenPromise of
        None \<Rightarrow> c
      | Some siteId \<Rightarrow>
          (case outcome of
             Fulfilled response \<Rightarrow>
               c \<lparr> siteMap := (siteMap c)(siteId \<mapsto>
                                  (if response \<noteq> None then Retry else NotSupported)),
                   attempts := (attempts c)(tokenPromise := None) \<rparr>
           | Rejected e \<Rightarrow> c \<lparr> attempts := (attempts c)(tokenPromise := None) \<rparr>
           | Unsettled \<Rightarrow> c))"

text \<open>
  What the caller of \<^verbatim>\<open>requestAsync\<close> gets from line 82 of the pipeline
  (\<^verbatim>\<open>await handleResponseAsync(...) || response\<close>) for each result of the handler, given the
  way each token promise settles.
\<close>

datatype CallerOutcome =
    KeepsOriginal                   \<comment> \<open>the 401/403 response stays\<close>
  | ReplacedBy IHttpResponse        \<comment> \<open>the value of the token promise replaces it\<close>
  | ReissuesOriginal                \<comment> \<open>\<^verbatim>\<open>pipeline.requestAsync(request)\<close> is called\<close>
  | FailsWith error
  | WaitsForever

fun callerOutcome ::
  "(nat \<Rightarrow> IHttpResponse option promise) \<Rightarrow> HandlerResult \<Rightarrow> CallerOutcome" where
  "callerOutcome settles ReturnUndefined = KeepsOriginal"
| "callerOutcome settles RetryNow = ReissuesOriginal"
| "callerOutcome settles (Throws e) = FailsWith e"
| "callerOutcome settles (ReturnToken p) =
     (case settles p of
        Fulfilled (Some r) \<Rightarrow> ReplacedBy r
      | Fulfilled None \<Rightarrow> KeepsOriginal
      | Rejected e \<Rightarrow> FailsWith e
      | Unsettled \<Rightarrow> WaitsForever)"
| "callerOutcome settles (AwaitThenRetry p) =
     (case settles p of
        Fulfilled r \<Rightarrow> ReissuesOriginal
      | Rejected e \<Rightarrow> FailsWith e
      | Unsettled \<Rightarrow> WaitsForever)"

text \<open>
  The handler runs to completion each time it is called (one turn of the event loop), so
  concurrent calls of \<^verbatim>\<open>requestAsync\<close> reach it one after the other, in some order, mixed
  with the settling of token promises.
\<close>

datatype CoordEvent =
    Response401 IHttpRequest IHttpResponse
  | TokenSettled nat "IHttpResponse option promise"

fun runEvents ::
  "(string \<Rightarrow> string option) \<Rightarrow> Coordinator \<Rightarrow> CoordEvent list
     \<Rightarrow> HandlerResult list \<times> Coordinator" where
  "runEvents url_host c [] = ([], c)"
| "runEvents url_host c (Response401 request response # evs) =
     (case handleResponse url_host c request response of (r, c') \<Rightarrow>
        (case runEvents url_host c' evs of (rs, c'') \<Rightarrow> (r # rs, c'')))"
| "runEvents url_host c (TokenSettled p outcome # evs) =
     runEvents url_host (tokenSettled c p outcome) evs"

text \<open>
  Lines 30 to 56. \<^verbatim>\<open>pipeline.requestAsync\<close>, \<^verbatim>\<open>url.resolve\<close> and the AAD login flow
  (\<^verbatim>\<open>./auth.aad\<close>) are parameters. Reading a property of \<^verbatim>\<open>undefined\<close> or \<^verbatim>\<open>null\<close>
  throws; of any other value that is not an object with that property it gives
  \<^verbatim>\<open>undefined\<close>.
\<close>

fun getProperty :: "json option \<Rightarrow> string \<Rightarrow> error + json option" where
  "getProperty None k = Inl TypeError"
| "getProperty (Some JNull) k = Inl TypeError"
| "getProperty (Some (JObj kvs)) k = Inr (map_of kvs k)"
| "getProperty (Some v) k = Inr None"

record AadOptions =
  authority :: "json option"
  redirectUri :: string
  clientId :: "json option"

definition aadMetadataRequest :: "(string \<Rightarrow> string \<Rightarrow> string) \<Rightarrow> IHttpRequest \<Rightarrow> IHttpRequest" where
  "aadMetadataRequest url_resolve request =
     \<lparr> sslVersion = None, clientCert = None, httpMethod = GET,
       url = url_resolve (url request) ''/$/GetAadMetadata?api-version=1.0'',
       headers = None, body = None \<rparr>"

definition acquireTokenAsync ::
  "(string \<Rightarrow> string \<Rightarrow> string)
     \<Rightarrow> (IHttpRequest \<Rightarrow> 'w \<Rightarrow> IHttpResponse promise \<times> 'w)
     \<Rightarrow> (AadOptions \<Rightarrow> IHttpRequest \<Rightarrow> IHttpResponse \<Rightarrow> 'w \<Rightarrow> IHttpResponse option promise \<times> 'w)
     \<Rightarrow> IHttpRequest \<Rightarrow> IHttpResponse \<Rightarrow> 'w \<Rightarrow> IHttpResponse option promise \<times> 'w" where
  "acquireTokenAsync url_resolve pipeline_requestAsync handleAadAsync request response w =
     (case pipeline_requestAsync (aadMetadataRequest url_resolve request) w of (settled, w') \<Rightarrow>
        (case settled of
           Rejected e \<Rightarrow> (Rejected e, w')
         | Unsettled \<Rightarrow> (Unsettled, w')
         | Fulfilled aadMetadataResponse \<Rightarrow>
             if statusCode aadMetadataResponse \<noteq> 200 then (Fulfilled None, w')
             else
               (case getProperty (data aadMetadataResponse) ''type'' of
                  Inl e \<Rightarrow> (Rejected e, w')
                | Inr ty \<Rightarrow>
                    if ty \<noteq> Some (JStr ''aad'') then (Fulfilled None, w')
                    else
                      (case getProperty (data aadMetadataResponse) ''metadata'' of
                         Inl e \<Rightarrow> (Rejected e, w')
                       | Inr metadata \<Rightarrow>
                           (case getProperty metadata ''authority'' of
                              Inl e \<Rightarrow> (Rejected e, w')
                            | Inr auth \<Rightarrow>
                                (case getProperty metadata ''cluster'' of
                                   Inl e \<Rightarrow> (Rejected e, w')
                                 | Inr cluster \<Rightarrow>
                                     handleAadAsync
                                       \<lparr> authority = auth,
                                         redirectUri = url_resolve (url request) ''/Explorer/index.html'',
                                         clientId = cluster \<rparr>
                                       request response w'))))))"

section \<open>Certificate information (src/http/request-handlers/node.ts, lines 216 to 240)\<close>

text \<open>
  \<^verbatim>\<open>crypto.createHash("sha1")\<close> is the runtime's SHA-1 (FIPS 180-4), written out here over
  bytes and 32-bit words: padding to a multiple of 64 bytes, the 80-word message schedule,
  80 rounds per block, and the digest as the five state words in big-endian order.
\<close>

type_synonym byte = "8 word"

definition be32 :: "byte list \<Rightarrow> 32 word" where
  "be32 bs = foldl (\<lambda>acc b. push_bit 8 acc + ucast b) 0 bs"

definition bytes32 :: "32 word \<Rightarrow> byte list" where
  "bytes32 x = [ucast (drop_bit 24 x), ucast (drop_bit 16 x), ucast (drop_bit 8 x), ucast x]"

definition bytes64 :: "64 word \<Rightarrow> byte list" where
  "bytes64 x = map (\<lambda>i. ucast (drop_bit (8 * (7 - i)) x)) [0 ..< 8]"

definition sha1_pad :: "byte list \<Rightarrow> byte list" where
  "sha1_pad m =
     m @ [0x80] @ replicate ((119 - length m mod 64) mod 64) 0
       @ bytes64 (of_nat (8 * length m))"

fun chunks :: "nat \<Rightarrow> 'a list \<Rightarrow> 'a list list" where
  "chunks n [] = []"
| "chunks n (x # xs) =
     (if n = 0 then [] else take n (x # xs) # chunks n (drop n (x # xs)))"

fun sha1_schedule :: "nat \<Rightarrow> 32 word list \<Rightarrow> 32 word list" where
  "sha1_schedule 0 ws = ws"
| "sha1_schedule (Suc n) ws =
     (let t = length ws
      in sha1_schedule n
           (ws @ [word_rotl 1 (xor (xor (ws ! (t - 3)) (ws ! (t - 8)))
                                   (xor (ws ! (t - 14)) (ws ! (t - 16))))]))"

definition sha1_f :: "nat \<Rightarrow> 32 word \<Rightarrow> 32 word \<Rightarrow> 32 word \<Rightarrow> 32 word" where
  "sha1_f t b c d =
     (if t < 20 then or (and b c) (and (not b) d)
      else if t < 40 then xor (xor b c) d
      else if t < 60 then or (or (and b c) (and b d)) (and c d)
      else xor (xor b c) d)"

definition sha1_k :: "nat \<Rightarrow> 32 word" where
  "sha1_k t =
     (if t < 20 then 0x5A827999
      else if t < 40 then 0x6ED9EBA1
      else if t < 60 then 0x8F1BBCDC
      else 0xCA62C1D6)"

type_synonym sha1_state = "32 word \<times> 32 word \<times> 32 word \<times> 32 word \<times> 32 word"

definition sha1_round :: "32 word list \<Rightarrow> sha1_state \<Rightarrow> nat \<Rightarrow> sha1_state" where
  "sha1_round ws st t =
     (case st of (a, b, c, d, e) \<Rightarrow>
        (word_rotl 5 a + sha1_f t b c d + e + sha1_k t + ws ! t, a, word_rotl 30 b, c, d))"

definition sha1_block :: "sha1_state \<Rightarrow> byte list \<Rightarrow> sha1_state" where
  "sha1_block st block =
     (let ws = sha1_schedule 64 (map be32 (chunks 4 block))
      in case st of (h0, h1, h2, h3, h4) \<Rightarrow>
           (case foldl (sha1_round ws) st [0 ..< 80] of (a, b, c, d, e) \<Rightarrow>
              (h0 + a, h1 + b, h2 + c, h3 + d, h4 + e)))"

definition sha1_init :: sha1_state where
  "sha1_init = (0x67452301, 0xEFCDAB89, 0x98BADCFE, 0x10325476, 0xC3D2E1F0)"

definition sha1 :: "byte list \<Rightarrow> byte list" where
  "sha1 m =
     (case foldl sha1_block sha1_init (chunks 64 (sha1_pad m)) of (h0, h1, h2, h3, h4) \<Rightarrow>
        bytes32 h0 @ bytes32 h1 @ bytes32 h2 @ bytes32 h3 @ bytes32 h4)"

text \<open>\<^verbatim>\<open>digest("hex")\<close>: two lower-case hexadecimal digits per byte.\<close>

definition hexDigit :: "nat \<Rightarrow> char" where
  "hexDigit n = ''0123456789abcdef'' ! (n mod 16)"

definition hexEncode :: "byte list \<Rightarrow> string" where
  "hexEncode bs = concat (map (\<lambda>b. [hexDigit (unat b div 16), hexDigit (unat b mod 16)]) bs)"

text \<open>
  A distinguished name as \<^verbatim>\<open>tls.PeerCertificate\<close> gives it: an object, here the list of its
  own properties in the order \<^verbatim>\<open>Object.getOwnPropertyNames\<close> reports them, with each value
  as the template literal prints it.
\<close>

type_synonym DistinguishedName = "(string \<times> string) list"

record PeerCertificate =
  subject :: DistinguishedName
  issuer :: DistinguishedName
  pc_serialNumber :: string
  valid_from :: string
  valid_to :: string
  raw :: "byte list"

text \<open>\<^verbatim>\<open>new Date(s)\<close> is kept as the constructor call on its argument.\<close>

datatype Date = NewDate string

record ICertificateInfo =
  subjectName :: string
  issuerName :: string
  serialNumber :: string
  validStart :: Date
  validExpiry :: Date
  thumbprint :: string

text \<open>
  Lines 216 to 225: the loop appends \<^verbatim>\<open>name=value, \<close> for each property, and
  \<^verbatim>\<open>substr(0, str.length - 2)\<close> cuts the last two characters (a negative length gives the
  empty string).
\<close>

fun objectToString_loop :: "string \<Rightarrow> (string \<times> string) list \<Rightarrow> string" where
  "objectToString_loop str [] = str"
| "objectToString_loop str ((propertyName, v) # rest) =
     objectToString_loop (str @ propertyName @ ''='' @ v @ '', '') rest"

definition objectToString :: "(string \<times> string) list \<Rightarrow> string" where
  "objectToString obj =
     (let str = objectToString_loop [] obj
      in take (length str - 2) str)"

definition toCertificateInfo :: "PeerCertificate \<Rightarrow> ICertificateInfo" where
  "toCertificateInfo peerCert =
     \<lparr> subjectName = objectToString (subject peerCert),
       issuerName = objectToString (issuer peerCert),
       serialNumber = pc_serialNumber peerCert,
       validStart = NewDate (valid_from peerCert),
       validExpiry = NewDate (valid_to peerCert),
       thumbprint = hexEncode (sha1 (raw peerCert)) \<rparr>"

text \<open>
  The flattening in the words of the specification: \<^verbatim>\<open>key=value\<close> items joined by a comma
  and a space.
\<close>

fun joinWith :: "string \<Rightarrow> string list \<Rightarrow> string" where
  "joinWith sep [] = []"
| "joinWith sep [x] = x"
| "joinWith sep (x # y # ys) = x @ sep @ joinWith sep (y # ys)"

definition flattenName :: "DistinguishedName \<Rightarrow> string" where
  "flattenName dn = joinWith '', '' (map (\<lambda>(k, v). k @ ''='' @ v) dn)"

definition isHexChar :: "char \<Rightarrow> bool" where
  "isHexChar ch = (ch \<in> set ''0123456789abcdef'')"

section \<open>The transport handler (src/http/request-handlers/node.ts, lines 23 to 214)\<close>

text \<open>
  An outgoing header is a string, or an array of strings once a name repeats (lines 23 to
  38).
\<close>

datatype HeaderValue = Single string | Multiple "string list"

fun applyHeaders ::
  "(string \<rightharpoonup> HeaderValue) \<Rightarrow> IHttpHeader list \<Rightarrow> (string \<rightharpoonup> HeaderValue)" where
  "applyHeaders requestHeaders [] = requestHeaders"
| "applyHeaders requestHeaders (header # rest) =
     applyHeaders
       (case requestHeaders (header_name header) of
          Some (Multiple vs) \<Rightarrow>
            requestHeaders(header_name header \<mapsto> Multiple (vs @ [header_value header]))
        | Some (Single v) \<Rightarrow>
            requestHeaders(header_name header \<mapsto> Multiple [v, header_value header])
        | None \<Rightarrow> requestHeaders(header_name header \<mapsto> Single (header_value header)))
       rest"

text \<open>Lines 40 to 55: names at even positions, values at odd ones.\<close>

fun generateHeaders :: "string list \<Rightarrow> IHttpHeader list" where
  "generateHeaders (n # v # rest) =
     \<lparr> header_name = n, header_value = v \<rparr> # generateHeaders rest"
| "generateHeaders [n] = []"
| "generateHeaders [] = []"

text \<open>
  The runtime's side. \<^verbatim>\<open>url.parse\<close> gives the protocol (with its colon) and the host. An
  incoming message carries the status line, the raw header list and its body stream:
  \<open>stream\<close> is fulfilled with all the bytes when \<^verbatim>\<open>end\<close> fires and rejected when
  \<^verbatim>\<open>error\<close> fires.
\<close>

record UrlObject =
  protocol :: "string option"
  host :: "string option"

record IncomingMessage =
  im_httpVersion :: string
  im_statusCode :: int
  im_statusMessage :: string
  rawHeaders :: "string list"
  readable :: bool
  stream :: "string promise"

record RequestOptions =
  parsedUrl :: UrlObject
  options_method :: HttpMethod
  options_headers :: "(string \<rightharpoonup> HeaderValue) option"
  secureProtocol :: "SslVersion option"
  rejectUnauthorized :: "bool option"
  options_cert :: "string option"
  options_key :: "string option"
  passphrase :: "string option"
  options_pfx :: "string option"

text \<open>
  What a TLS exchange shows the handler: whether the runtime trusts the peer, the peer's
  certificate (\<open>None\<close> for the empty object), the error the socket would be destroyed
  with, and the reply.
\<close>

record TlsExchange =
  authorized :: bool
  peerCertificate :: "PeerCertificate option"
  authorizationError :: error
  reply :: "IncomingMessage promise"

text \<open>
  The runtime is a parameter: \<^verbatim>\<open>url.parse\<close>, \<^verbatim>\<open>JSON.stringify\<close>, \<^verbatim>\<open>http.request\<close> with the
  body written to it, whether \<^verbatim>\<open>https.request(options)\<close> throws, and the exchange it
  performs otherwise.
\<close>

record 'w Runtime =
  url_parse :: "string \<Rightarrow> UrlObject"
  JSON_stringify :: "json \<Rightarrow> string"
  http_request :: "RequestOptions \<Rightarrow> string option \<Rightarrow> 'w \<Rightarrow> IncomingMessage promise \<times> 'w"
  https_request_throws :: "RequestOptions \<Rightarrow> error option"
  https_request :: "RequestOptions \<Rightarrow> string option \<Rightarrow> 'w \<Rightarrow> TlsExchange \<times> 'w"

text \<open>A string is truthy when it is not empty.\<close>

definition truthy :: "string option \<Rightarrow> string option" where
  "truthy x = (case x of Some s \<Rightarrow> (if s = [] then None else Some s) | None \<Rightarrow> None)"

definition contentTypeJson :: IHttpHeader where
  "contentTypeJson =
     \<lparr> header_name = ''Content-Type'', header_value = ''application/json; charset=utf-8'' \<rparr>"

text \<open>Lines 91 to 101: the first \<^verbatim>\<open>Content-Type\<close> header is overwritten, or one is pushed.\<close>

fun setContentType :: "IHttpHeader list \<Rightarrow> IHttpHeader list" where
  "setContentType [] = [contentTypeJson]"
| "setContentType (h # hs) =
     (if header_name h = ''Content-Type'' then contentTypeJson # hs
      else h # setContentType hs)"

text \<open>
  Lines 81 to 102: the body to send, and the request object as this step leaves it. A
  \<^verbatim>\<open>Buffer\<close> or a string is taken as it is; anything else, an absent body included, goes
  through \<^verbatim>\<open>JSON.stringify\<close> (which gives \<^verbatim>\<open>undefined\<close> for \<^verbatim>\<open>undefined\<close>) and sets the
  \<^verbatim>\<open>Content-Type\<close> header on the request.
\<close>

datatype OutBody = OutBuffer string | OutString string | OutUndefined

definition prepareBody :: "(json \<Rightarrow> string) \<Rightarrow> IHttpRequest \<Rightarrow> OutBody \<times> IHttpRequest" where
  "prepareBody stringify request =
     (case body request of
        Some (BodyBuffer b) \<Rightarrow> (OutBuffer b, request)
      | Some (BodyString s) \<Rightarrow> (OutString s, request)
      | other \<Rightarrow>
          ((case other of Some (BodyValue j) \<Rightarrow> OutString (stringify j) | _ \<Rightarrow> OutUndefined),
           request \<lparr> headers :=
             Some (setContentType (case headers request of None \<Rightarrow> [] | Some hs \<Rightarrow> hs)) \<rparr>))"

text \<open>Line 208, \<^verbatim>\<open>if (body)\<close>: a \<^verbatim>\<open>Buffer\<close> is always written, a string when not empty.\<close>

definition bodyToWrite :: "OutBody \<Rightarrow> string option" where
  "bodyToWrite b =
     (case b of
        OutBuffer x \<Rightarrow> Some x
      | OutString s \<Rightarrow> (if s = [] then None else Some s)
      | OutUndefined \<Rightarrow> None)"

text \<open>Lines 57 to 73.\<close>

definition generateBodyAsync :: "IncomingMessage \<Rightarrow> string promise" where
  "generateBodyAsync httpResponse =
     (if \<not> readable httpResponse then Fulfilled [] else stream httpResponse)"

text \<open>
  Lines 174 to 184, the \<^verbatim>\<open>response\<close> listener, and line 206, the \<^verbatim>\<open>error\<close> listener. The
  listener is an async function: when reading the body fails, its own promise rejects and
  \<^verbatim>\<open>resolve\<close> is never called.
\<close>

definition onResponse :: "IncomingMessage promise \<Rightarrow> IHttpResponse option promise" where
  "onResponse incoming =
     (case incoming of
        Rejected e \<Rightarrow> Rejected e
      | Unsettled \<Rightarrow> Unsettled
      | Fulfilled response \<Rightarrow>
          (case generateBodyAsync response of
             Fulfilled b \<Rightarrow>
               Fulfilled (Some \<lparr> httpVersion = im_httpVersion response,
                                 statusCode = im_statusCode response,
                                 statusMessage = im_statusMessage response,
                                 data = None,
                                 response_headers = generateHeaders (rawHeaders response),
                                 response_body = b \<rparr>)
           | Rejected e \<Rightarrow> Unsettled
           | Unsettled \<Rightarrow> Unsettled))"

text \<open>Lines 124 to 151: the client certificate goes into the options, by its type tag.\<close>

definition applyClientCert :: "ICertificate option \<Rightarrow> RequestOptions \<Rightarrow> error + RequestOptions" where
  "applyClientCert cc options =
     (case cc of
        None \<Rightarrow> Inr options
      | Some pemCert \<Rightarrow>
          if cert_type pemCert = ''pem'' then
            Inr (options \<lparr> options_cert := cert pemCert,
                           options_key := orElse (truthy (key pemCert)) (options_key options),
                           passphrase := orElse (truthy (password pemCert)) (passphrase options) \<rparr>)
          else if cert_type pemCert = ''pfx'' then
            Inr (options \<lparr> options_pfx := pfx pemCert,
                           passphrase := orElse (truthy (password pemCert)) (passphrase options) \<rparr>)
          else Inl (InvalidClientCertType (cert_type pemCert)))"

text \<open>
  Lines 186 to 204 and 174 to 184 for an https request that was created: with a validator
  and an untrusted peer that shows a certificate, the validator decides; a refusal
  destroys the socket with the authorization error.
\<close>

definition secureExchange ::
  "'w Runtime \<Rightarrow> (string option \<Rightarrow> ICertificateInfo \<Rightarrow> bool) option \<Rightarrow> IHttpRequest
     \<Rightarrow> RequestOptions \<Rightarrow> OutBody \<Rightarrow> 'w \<Rightarrow> IHttpResponse option promise \<times> 'w" where
  "secureExchange rt validateServerCert request options b w =
     (case https_request rt options (bodyToWrite b) w of (tls, w') \<Rightarrow>
        (case validateServerCert of
           None \<Rightarrow> (onResponse (reply tls), w')
         | Some validate \<Rightarrow>
             if \<not> authorized tls then
               (case peerCertificate tls of
                  None \<Rightarrow> (onResponse (reply tls), w')
                | Some peerCert \<Rightarrow>
                    if \<not> validate (host (url_parse rt (url request))) (toCertificateInfo peerCert)
                    then (Rejected (authorizationError tls), w')
                    else (onResponse (reply tls), w'))
             else (onResponse (reply tls), w')))"

text \<open>
  Lines 75 to 214. Every path ends in \<^verbatim>\<open>resolve(httpResponse)\<close>, in \<^verbatim>\<open>reject\<close>, or in
  neither: line 171 leaves the executor of the promise by \<^verbatim>\<open>return undefined\<close>, and the
  value an executor returns is ignored.
\<close>

definition handleRequestAsync ::
  "'w Runtime \<Rightarrow> (string option \<Rightarrow> ICertificateInfo \<Rightarrow> bool) option \<Rightarrow> 'w HttpRequestHandler" where
  "handleRequestAsync rt validateServerCert request0 w =
     (case prepareBody (JSON_stringify rt) request0 of (b, request) \<Rightarrow>
        let options =
              \<lparr> parsedUrl = url_parse rt (url request),
                options_method = httpMethod request,
                options_headers = map_option (applyHeaders Map.empty) (headers request),
                secureProtocol = None, rejectUnauthorized = None, options_cert = None,
                options_key = None, passphrase = None, options_pfx = None \<rparr>
        in
          if protocol (parsedUrl options) = Some ''http:'' then
            (case http_request rt options (bodyToWrite b) w of (incoming, w') \<Rightarrow>
               (onResponse incoming, request, w'))
          else if protocol (parsedUrl options) = Some ''https:'' then
            (let options1 = options \<lparr> secureProtocol := sslVersion request \<rparr>;
                 options2 = (if validateServerCert \<noteq> None
                             then options1 \<lparr> rejectUnauthorized := Some False \<rparr>
                             else options1)
             in case applyClientCert (clientCert request) options2 of
                  Inl e \<Rightarrow> (Rejected e, request, w)
                | Inr options3 \<Rightarrow>
                    (case https_request_throws rt options3 of
                       None \<Rightarrow>
                         (case secureExchange rt validateServerCert request options3 b w of
                            (r, w') \<Rightarrow> (r, request, w'))
                     | Some err \<Rightarrow>
                         if err = OtherError ''mac verify failure'' then
                           (let options4 = options3 \<lparr> options_key := None, options_cert := None,
                                                       passphrase := None, options_pfx := None \<rparr>
                            in case https_request_throws rt options4 of
                                 Some err' \<Rightarrow> (Rejected err', request, w)
                               | None \<Rightarrow>
                                   (case secureExchange rt validateServerCert request options4 b w of
                                      (r, w') \<Rightarrow> (r, request, w')))
                         else (Rejected err, request, w)))
          else (Unsettled, request, w))"

text \<open>Lines 242 to 248.\<close>

definition createRequestHandler ::
  "'w Runtime \<Rightarrow> (string option \<Rightarrow> ICertificateInfo \<Rightarrow> bool) option \<Rightarrow> 'w HttpRequestHandler" where
  "createRequestHandler rt serverCertValidator = handleRequestAsync rt serverCertValidator"

section \<open>Concrete inputs\<close>

text \<open>
  Requests, responses and handlers used to evaluate the definitions. The world of these
  handlers is a counter of handler invocations.
\<close>

definition exampleRequest :: "string \<Rightarrow> IHttpHeader list option \<Rightarrow> IHttpRequest" where
  "exampleRequest u hs =
     \<lparr> sslVersion = None, clientCert = None, httpMethod = GET, url = u, headers = hs, body = None \<rparr>"

definition exampleResponse :: "int \<Rightarrow> IHttpResponse" where
  "exampleResponse code =
     \<lparr> httpVersion = ''1.1'', statusCode = code, statusMessage = [], data = None,
       response_headers = [], response_body = [] \<rparr>"

definition exampleHeader :: "string \<Rightarrow> string \<Rightarrow> IHttpHeader" where
  "exampleHeader n v = \<lparr> header_name = n, header_value = v \<rparr>"

definition declining :: "nat HttpRequestHandler" where
  "declining request w = (Fulfilled None, request, Suc w)"

definition responding :: "int \<Rightarrow> nat HttpRequestHandler" where
  "responding code request w = (Fulfilled (Some (exampleResponse code)), request, Suc w)"

definition throwing :: "nat HttpRequestHandler" where
  "throwing request w = (Rejected (OtherError ''unreachable''), request, Suc w)"

definition exampleStore ::
  "nat HttpRequestHandler list \<Rightarrow> nat HttpResponseHandler list \<Rightarrow> nat Store" where
  "exampleStore hs rs =
     \<lparr> requestArrays = [0 \<mapsto> hs], responseArrays = [1 \<mapsto> rs], nextRef = 2 \<rparr>"

definition examplePipeline :: "IHttpRequest option \<Rightarrow> HttpPipeline" where
  "examplePipeline t =
     \<lparr> requestTemplate = t, private_requestHandlers = 0, private_responseHandlers = 1 \<rparr>"

text \<open>
  The calls the single-flight property is about: a 401 or 403 response for site \<open>k\<close>
  whose request has a header list without \<^verbatim>\<open>Authorization\<close>.
\<close>

definition unauthorized401 ::
  "(string \<Rightarrow> string option) \<Rightarrow> string \<Rightarrow> IHttpRequest \<times> IHttpResponse \<Rightarrow> bool" where
  "unauthorized401 url_host k call =
     (case call of (request, response) \<Rightarrow>
        (statusCode response = 401 \<or> statusCode response = 403) \<and>
        siteKey (url_host (url request)) = k \<and>
        (case headers request of Some hs \<Rightarrow> \<not> hasAuthorization hs | None \<Rightarrow> False))"

definition asEvents :: "(IHttpRequest \<times> IHttpResponse) list \<Rightarrow> CoordEvent list" where
  "asEvents calls = map (\<lambda>(request, response). Response401 request response) calls"

text \<open>A stand-in for \<^verbatim>\<open>url.parse(u).host\<close> on the URLs used below.\<close>

definition exampleHost :: "string \<Rightarrow> string option" where
  "exampleHost u =
     (if u = ''https://example.com/a'' then Some ''example.com''
      else if u = ''https://example.com/b'' then Some ''example.com''
      else None)"

definition bearer :: IHttpHeader where
  "bearer = \<lparr> header_name = ''Authorization'', header_value = ''Bearer t'' \<rparr>"

definition noToken :: "nat \<Rightarrow> IHttpResponse option promise" where
  "noToken p = Fulfilled None"

text \<open>Whether an event is the settling of token promise \<open>p\<close>.\<close>

fun settlesPromise :: "nat \<Rightarrow> CoordEvent \<Rightarrow> bool" where
  "settlesPromise p (TokenSettled q outcome) = (p = q)"
| "settlesPromise p (Response401 request response) = False"

text \<open>
  Every token promise that has not settled was handed out before \<open>nextPromise\<close>, so a
  new attempt never takes the place of a pending one in \<open>attempts\<close>.
\<close>

definition pendingBelow :: "Coordinator \<Rightarrow> bool" where
  "pendingBelow c = (\<forall>q s. attempts c q = Some s \<longrightarrow> q < nextPromise c)"

text \<open>
  Stand-ins for the collaborators of \<^verbatim>\<open>acquireTokenAsync\<close>: a \<^verbatim>\<open>url.resolve\<close> on the URLs
  used here, a pipeline whose request is rejected (the connection is refused), and a login
  flow that is not reached.
\<close>

definition exampleResolve :: "string \<Rightarrow> string \<Rightarrow> string" where
  "exampleResolve base rel = ''https://example.com'' @ rel"

definition refusedConnection :: "IHttpRequest \<Rightarrow> nat \<Rightarrow> IHttpResponse promise \<times> nat" where
  "refusedConnection request w = (Rejected (OtherError ''ECONNREFUSED''), Suc w)"

definition noLogin ::
  "AadOptions \<Rightarrow> IHttpRequest \<Rightarrow> IHttpResponse \<Rightarrow> nat \<Rightarrow> IHttpResponse option promise \<times> nat" where
  "noLogin options request response w = (Fulfilled None, w)"

definition loggedIn :: "nat \<Rightarrow> IHttpResponse option promise" where
  "loggedIn p = Fulfilled (Some (exampleResponse 200))"

definition plainCall :: "string \<Rightarrow> int \<Rightarrow> IHttpRequest \<times> IHttpResponse" where
  "plainCall u code = (exampleRequest u (Some []), exampleResponse code)"

definition retryRecorded :: Coordinator where
  "retryRecorded = createResponseHandler \<lparr> siteMap := [''example.com'' \<mapsto> Retry] \<rparr>"

text \<open>
  A runtime for the transport handler on the URLs used here; its network never answers.
\<close>

definition exampleUrlParse :: "string \<Rightarrow> UrlObject" where
  "exampleUrlParse u =
     (if u = ''ftp://example.com/a'' then \<lparr> protocol = Some ''ftp:'', host = Some ''example.com'' \<rparr>
      else if u = ''http://example.com/a'' then \<lparr> protocol = Some ''http:'', host = Some ''example.com'' \<rparr>
      else \<lparr> protocol = None, host = None \<rparr>)"

definition silentHttp :: "RequestOptions \<Rightarrow> string option \<Rightarrow> nat \<Rightarrow> IncomingMessage promise \<times> nat" where
  "silentHttp options b w = (Unsettled, w)"

definition silentHttps :: "RequestOptions \<Rightarrow> string option \<Rightarrow> nat \<Rightarrow> TlsExchange \<times> nat" where
  "silentHttps options b w =
     (\<lparr> authorized = True, peerCertificate = None, authorizationError = OtherError [],
        reply = Unsettled \<rparr>, w)"

definition neverThrows :: "RequestOptions \<Rightarrow> error option" where
  "neverThrows options = None"

definition stringifyStub :: "json \<Rightarrow> string" where
  "stringifyStub j = ''null''"

definition exampleRuntime :: "nat Runtime" where
  "exampleRuntime =
     \<lparr> url_parse = exampleUrlParse, JSON_stringify = stringifyStub, http_request = silentHttp,
       https_request_throws = neverThrows, https_request = silentHttps \<rparr>"

text \<open>The certificate of the specification's example, with three raw bytes.\<close>

definition exampleCertificate :: PeerCertificate where
  "exampleCertificate =
     \<lparr> subject = [(''CN'', ''a'')], issuer = [(''CN'', ''b'')], pc_serialNumber = ''01'',
       valid_from = ''Jan  1 00:00:00 2020 GMT'', valid_to = ''Jan  1 00:00:00 2030 GMT'',
       raw = [0x61, 0x62, 0x63] \<rparr>"

text \<open>
  A pipeline constructed from the arrays at references 0 and 1 of a store that holds one
  declining request handler.
\<close>

definition builtPipeline :: "HttpPipeline \<times> nat Store" where
  "builtPipeline = newHttpPipeline (exampleStore [declining] []) (Some 0) (Some 1)"

definition keeping :: "nat HttpResponseHandler" where
  "keeping request response w = (Fulfilled None, request, response, Suc w)"

section \<open>Properties of the pipeline\<close>

lemma dispatch_declineAll:
  "declineAll hs request w = Some (request', w') \<Longrightarrow>
   dispatch hs i request w
     = (Fulfilled None, map CallRequestHandler [i ..< i + length hs], request', w')"
proof (induction hs arbitrary: i request w)
  case Nil
  then show ?case by simp
next
  case (Cons h hs)
  obtain s rq1 w1 where h: "h request w = (s, rq1, w1)"
    by (cases "h request w") auto
  with Cons.prems have s: "s = Fulfilled None" and rest: "declineAll hs rq1 w1 = Some (request', w')"
    by (auto split: promise.splits option.splits)
  have "dispatch hs (Suc i) rq1 w1
          = (Fulfilled None, map CallRequestHandler [Suc i ..< Suc i + length hs], request', w')"
    using Cons.IH [OF rest] .
  moreover have "[i ..< i + length (h # hs)] = i # [Suc i ..< Suc i + length hs]"
    by (simp add: upt_conv_Cons del: upt_Suc)
  ultimately show ?case
    using h s by (simp del: upt_Suc)
qed

lemma dispatch_first_responder:
  "declineAll pre request w = Some (request1, w1) \<Longrightarrow>
   h request1 w1 = (Fulfilled (Some response), request2, w2) \<Longrightarrow>
   dispatch (pre @ h # post) i request w
     = (Fulfilled (Some response), map CallRequestHandler [i ..< Suc (i + length pre)],
        request2, w2)"
proof (induction pre arbitrary: i request w)
  case Nil
  then show ?case by simp
next
  case (Cons g pre)
  obtain s rq1 w' where g: "g request w = (s, rq1, w')"
    by (cases "g request w") auto
  with Cons.prems(1) have s: "s = Fulfilled None"
    and rest: "declineAll pre rq1 w' = Some (request1, w1)"
    by (auto split: promise.splits option.splits)
  have "dispatch (pre @ h # post) (Suc i) rq1 w'
          = (Fulfilled (Some response),
             map CallRequestHandler [Suc i ..< Suc (Suc i + length pre)], request2, w2)"
    using Cons.IH [OF rest Cons.prems(2)] .
  moreover have "[i ..< Suc (i + length (g # pre))] = i # [Suc i ..< Suc (Suc i + length pre)]"
    by (simp add: upt_conv_Cons del: upt_Suc)
  ultimately show ?case
    using g s by (simp del: upt_Suc)
qed

lemma mergeTemplate_fields:
  "sslVersion (mergeTemplate t r) = orElse (sslVersion r) (sslVersion t)"
  "clientCert (mergeTemplate t r) = orElse (clientCert r) (clientCert t)"
  "body (mergeTemplate t r) = orElse (body r) (body t)"
  "httpMethod (mergeTemplate t r) = httpMethod r"
  "url (mergeTemplate t r) = url r"
  by (simp_all add: mergeTemplate_def)

text \<open>
  C1. Claim: with a template configured, the effective request's headers are the
  template's headers followed by the request's own headers, and every other field is the
  request's own value when present, otherwise the template's. The code at line 56 pushes
  the merged array onto itself: with template header \<open>X-Template\<close> and request header
  \<open>X-Own\<close>, the effective request carries \<open>X-Template\<close> twice and \<open>X-Own\<close> not at
  all.
\<close>

theorem C1_template_headers_repeated:
  "headers (effectiveRequest
              (Some (exampleRequest ''http://example.com/a'' (Some [exampleHeader ''X-Template'' ''t''])))
              (exampleRequest ''http://example.com/a'' (Some [exampleHeader ''X-Own'' ''r''])))
     = Some [exampleHeader ''X-Template'' ''t'', exampleHeader ''X-Template'' ''t''] \<and>
   headers (effectiveRequest
              (Some (exampleRequest ''http://example.com/a'' (Some [exampleHeader ''X-Template'' ''t''])))
              (exampleRequest ''http://example.com/a'' (Some [exampleHeader ''X-Own'' ''r''])))
     \<noteq> Some ([exampleHeader ''X-Template'' ''t''] @ [exampleHeader ''X-Own'' ''r''])"
  by (simp add: effectiveRequest_def mergeTemplate_def mergedHeaders_def exampleRequest_def
        exampleHeader_def)

text \<open>
  C5. When every request handler of the chain, invoked in turn, resolves with no value,
  the call is rejected with the "no handler" error. The trace of the call is the start
  log line and one invocation of each request handler, in order: no response handler
  runs, no completion line is logged, and no handler is invoked a second time.
\<close>

theorem C5_no_handler_error:
  assumes "declineAll (requestChain store this)
             (effectiveRequest (requestTemplate this) request) w = Some (request', w')"
  shows "requestAsync store this request w
           = (Rejected NoRequestHandler,
              LogStart (httpMethod (effectiveRequest (requestTemplate this) request))
                       (url (effectiveRequest (requestTemplate this) request))
                # map CallRequestHandler [0 ..< length (requestChain store this)],
              w', store)"
  using dispatch_declineAll [OF assms, of 0]
  by (simp add: requestAsync_def Let_def)

theorem C5_no_handler_error_witness:
  "declineAll (requestChain (exampleStore [declining, declining] []) (examplePipeline None))
     (effectiveRequest (requestTemplate (examplePipeline None))
        (exampleRequest ''http://example.com/a'' None)) 0
     = Some (exampleRequest ''http://example.com/a'' None, 2) \<and>
   requestAsync (exampleStore [declining, declining] []) (examplePipeline None)
     (exampleRequest ''http://example.com/a'' None) 0
     = (Rejected NoRequestHandler,
        [LogStart GET ''http://example.com/a'', CallRequestHandler 0, CallRequestHandler 1],
        2, exampleStore [declining, declining] [])"
proof -
  have h: "declineAll (requestChain (exampleStore [declining, declining] []) (examplePipeline None))
     (effectiveRequest (requestTemplate (examplePipeline None))
        (exampleRequest ''http://example.com/a'' None)) 0
     = Some (exampleRequest ''http://example.com/a'' None, 2)"
    by (simp add: requestChain_def exampleStore_def examplePipeline_def arrayAt_def
          effectiveRequest_def declining_def)
  have len: "requestChain (exampleStore [declining, declining] []) (examplePipeline None)
               = [declining, declining]"
    by (simp add: requestChain_def exampleStore_def examplePipeline_def arrayAt_def)
  have req: "effectiveRequest (requestTemplate (examplePipeline None))
               (exampleRequest ''http://example.com/a'' None)
             = exampleRequest ''http://example.com/a'' None"
    by (simp add: effectiveRequest_def examplePipeline_def)
  have up: "[0 ..< length [declining, declining]] = [0, Suc 0]"
    by (simp add: upt_rec)
  show ?thesis
    using h C5_no_handler_error [OF h]
    unfolding len req up
    by (simp add: exampleRequest_def)
qed

text \<open>
  C6. The request handlers are invoked in the order of the array, each on the request and
  world the previous one left. When the handlers \<open>pre\<close> resolve with no value and the
  next handler \<open>h\<close> resolves with a response, the loop stops there: the invocations are
  those of positions \<open>0\<close> to \<open>length pre\<close>, the handlers \<open>post\<close> behind \<open>h\<close> are not
  invoked (the world is the one \<open>h\<close> left), and the response of \<open>h\<close> is the one that
  is logged and handed to the response handlers.
\<close>

theorem C6_first_responder_wins:
  assumes "requestChain store this = pre @ h # post"
    and "declineAll pre (effectiveRequest (requestTemplate this) request) w = Some (request1, w1)"
    and "h request1 w1 = (Fulfilled (Some response), request2, w2)"
  shows "dispatch (requestChain store this) 0 (effectiveRequest (requestTemplate this) request) w
           = (Fulfilled (Some response), map CallRequestHandler [0 ..< Suc (length pre)],
              request2, w2) \<and>
         requestAsync store this request w
           = (case postProcess (responseChain store this) 0 request2 response w2 of
                (r, tr', request3, w3) \<Rightarrow>
                  (r,
                   LogStart (httpMethod (effectiveRequest (requestTemplate this) request))
                            (url (effectiveRequest (requestTemplate this) request))
                     # map CallRequestHandler [0 ..< Suc (length pre)]
                     @ LogDone (statusCode response) (statusMessage response)
                         (httpMethod request2) (url request2)
                     # tr',
                   w3, store))"
proof -
  have d: "dispatch (requestChain store this) 0 (effectiveRequest (requestTemplate this) request) w
           = (Fulfilled (Some response), map CallRequestHandler [0 ..< Suc (length pre)],
              request2, w2)"
    using dispatch_first_responder
            [of pre "effectiveRequest (requestTemplate this) request" w request1 w1 h response
                request2 w2 post 0]
          assms by simp
  show ?thesis
    using d by (simp add: requestAsync_def Let_def del: upt_Suc)
qed

theorem C6_first_responder_wins_witness:
  "requestChain (exampleStore [declining, responding 200, throwing] []) (examplePipeline None)
     = [declining] @ responding 200 # [throwing] \<and>
   declineAll [declining]
     (effectiveRequest (requestTemplate (examplePipeline None))
        (exampleRequest ''http://example.com/a'' None)) 0
     = Some (exampleRequest ''http://example.com/a'' None, 1) \<and>
   responding 200 (exampleRequest ''http://example.com/a'' None) 1
     = (Fulfilled (Some (exampleResponse 200)), exampleRequest ''http://example.com/a'' None, 2) \<and>
   requestAsync (exampleStore [declining, responding 200, throwing] []) (examplePipeline None)
     (exampleRequest ''http://example.com/a'' None) 0
     = (Fulfilled (exampleResponse 200),
        [LogStart GET ''http://example.com/a'', CallRequestHandler 0, CallRequestHandler 1,
         LogDone 200 [] GET ''http://example.com/a''],
        2, exampleStore [declining, responding 200, throwing] [])"
proof -
  have c: "requestChain (exampleStore [declining, responding 200, throwing] []) (examplePipeline None)
             = [declining] @ responding 200 # [throwing]"
    by (simp add: requestChain_def exampleStore_def examplePipeline_def arrayAt_def)
  have req: "effectiveRequest (requestTemplate (examplePipeline None))
               (exampleRequest ''http://example.com/a'' None)
             = exampleRequest ''http://example.com/a'' None"
    by (simp add: effectiveRequest_def examplePipeline_def)
  have d: "declineAll [declining]
             (effectiveRequest (requestTemplate (examplePipeline None))
                (exampleRequest ''http://example.com/a'' None)) 0
           = Some (exampleRequest ''http://example.com/a'' None, 1)"
    unfolding req by (simp add: declining_def)
  have r: "responding 200 (exampleRequest ''http://example.com/a'' None) 1
             = (Fulfilled (Some (exampleResponse 200)),
                exampleRequest ''http://example.com/a'' None, 2)"
    by (simp add: responding_def)
  have rc: "responseChain (exampleStore [declining, responding 200, throwing] []) (examplePipeline None)
              = []"
    by (simp add: responseChain_def exampleStore_def examplePipeline_def arrayAt_def)
  have up: "[0 ..< Suc (length [declining])] = [0, Suc 0]"
    by (simp add: upt_rec)
  show ?thesis
    using c d r C6_first_responder_wins [OF c d r]
    unfolding rc req up
    by (simp add: exampleRequest_def exampleResponse_def)
qed

section \<open>Properties of the authentication handler\<close>

lemma handleResponse_waits:
  assumes "siteMap c k = Some (InFlight p)" and "unauthorized401 url_host k (request, response)"
  shows "handleResponse url_host c request response = (AwaitThenRetry p, c)"
  using assms
  by (auto simp: handleResponse_def unauthorized401_def Let_def split: option.splits)

lemma handleResponse_starts:
  assumes "siteMap c k = None" and "unauthorized401 url_host k (request, response)"
  shows "handleResponse url_host c request response = startAttempt c k"
  using assms
  by (auto simp: handleResponse_def unauthorized401_def Let_def split: option.splits)

lemma runEvents_waiters:
  assumes "siteMap c k = Some (InFlight p)" and "\<forall>x \<in> set calls. unauthorized401 url_host k x"
  shows "runEvents url_host c (asEvents calls) = (replicate (length calls) (AwaitThenRetry p), c)"
  using assms
proof (induction calls)
  case Nil
  then show ?case by (simp add: asEvents_def)
next
  case (Cons x calls)
  obtain request response where x: "x = (request, response)" by (cases x)
  have "handleResponse url_host c request response = (AwaitThenRetry p, c)"
    using handleResponse_waits [OF Cons.prems(1)] Cons.prems(2) x by simp
  moreover have "runEvents url_host c (asEvents calls) = (replicate (length calls) (AwaitThenRetry p), c)"
    using Cons by simp
  ultimately show ?case
    using x by (simp add: asEvents_def)
qed

lemma callerOutcome_waiter:
  "callerOutcome settles (AwaitThenRetry p) =
     (case settles p of Fulfilled r \<Rightarrow> ReissuesOriginal | Rejected e \<Rightarrow> FailsWith e | Unsettled \<Rightarrow> WaitsForever)"
  by simp

lemma handleResponse_token:
  assumes "handleResponse url_host c request response = (ReturnToken p, c1)"
  shows "p = nextPromise c \<and> c1 = snd (startAttempt c (siteKey (url_host (url request))))"
  using assms
  by (auto simp: handleResponse_def startAttempt_def Let_def
           split: if_splits option.splits SiteRecord.splits)

lemma pendingBelow_handleResponse:
  assumes "pendingBelow c"
  shows "pendingBelow (snd (handleResponse url_host c request response))"
  using assms
  by (auto simp: handleResponse_def startAttempt_def Let_def pendingBelow_def less_Suc_eq
           split: if_splits option.splits SiteRecord.splits)

lemma pendingBelow_tokenSettled:
  assumes "pendingBelow c"
  shows "pendingBelow (tokenSettled c p outcome)"
  using assms
  by (auto simp: tokenSettled_def pendingBelow_def split: option.splits promise.splits if_splits)

lemma attempts_handleResponse:
  assumes "pendingBelow c" and "attempts c p = Some s"
  shows "attempts (snd (handleResponse url_host c request response)) p = Some s"
proof -
  have "p \<noteq> nextPromise c"
    using assms by (auto simp: pendingBelow_def)
  then show ?thesis
    using assms(2)
    by (auto simp: handleResponse_def startAttempt_def Let_def
             split: if_splits option.splits SiteRecord.splits)
qed

lemma attempts_tokenSettled:
  assumes "attempts c p = Some s" and "p \<noteq> q"
  shows "attempts (tokenSettled c q outcome) p = Some s"
  using assms
  by (auto simp: tokenSettled_def split: option.splits promise.splits)

lemma runEvents_snd_response:
  "snd (runEvents url_host c (Response401 request response # evs))
     = snd (runEvents url_host (snd (handleResponse url_host c request response)) evs)"
  by (simp add: case_prod_beta)

lemma attempts_runEvents:
  assumes "pendingBelow c" and "attempts c p = Some s" and "\<forall>ev \<in> set evs. \<not> settlesPromise p ev"
  shows "attempts (snd (runEvents url_host c evs)) p = Some s"
  using assms
proof (induction evs arbitrary: c)
  case Nil
  then show ?case by simp
next
  case (Cons ev evs)
  show ?case
  proof (cases ev)
    case (Response401 request response)
    let ?c' = "snd (handleResponse url_host c request response)"
    have "attempts (snd (runEvents url_host ?c' evs)) p = Some s"
      using Cons.IH [of ?c'] Cons.prems
            pendingBelow_handleResponse [OF Cons.prems(1)]
            attempts_handleResponse [OF Cons.prems(1) Cons.prems(2)]
      by simp
    then show ?thesis
      using Response401 by (simp only: runEvents_snd_response)
  next
    case (TokenSettled q outcome)
    have ne: "p \<noteq> q"
      using Cons.prems(3) TokenSettled by simp
    let ?c' = "tokenSettled c q outcome"
    have "attempts (snd (runEvents url_host ?c' evs)) p = Some s"
      using Cons.IH [of ?c'] Cons.prems
            pendingBelow_tokenSettled [OF Cons.prems(1)]
            attempts_tokenSettled [OF Cons.prems(2) ne]
      by simp
    then show ?thesis
      using TokenSettled by simp
  qed
qed

lemma pendingBelow_runEvents:
  assumes "pendingBelow c"
  shows "pendingBelow (snd (runEvents url_host c evs))"
  using assms
proof (induction evs arbitrary: c)
  case Nil
  then show ?case by simp
next
  case (Cons ev evs)
  show ?case
  proof (cases ev)
    case (Response401 request response)
    then show ?thesis
      using Cons.IH [OF pendingBelow_handleResponse [OF Cons.prems, of url_host request response]]
      by (simp only: runEvents_snd_response)
  next
    case (TokenSettled q outcome)
    then show ?thesis
      using Cons.IH [OF pendingBelow_tokenSettled [OF Cons.prems, of q outcome]]
      by simp
  qed
qed

lemma pendingBelow_initial: "pendingBelow createResponseHandler"
  by (simp add: pendingBelow_def createResponseHandler_def)

text \<open>
  C2, as the code has it. Among 401/403 responses for one site whose requests carry a
  header list without \<^verbatim>\<open>Authorization\<close>, arriving while the site has no record: the
  first starts the one attempt and gets its token promise; every later one, as long as
  the attempt is pending, gets a promise that waits on that same token promise. Exactly
  one attempt is started, and the site's record is that attempt. The outcomes follow the
  way the attempt settles: the initiator receives the attempt's own value (a response, or
  nothing, which leaves the 401/403 in place), each waiter re-issues the original request
  once the attempt is fulfilled, whatever its value, and all fail when it is rejected.
\<close>

theorem C2_single_attempt:
  assumes "siteMap c k = None"
    and "unauthorized401 url_host k first"
    and "\<forall>x \<in> set others. unauthorized401 url_host k x"
  shows "fst (runEvents url_host c (asEvents (first # others)))
           = ReturnToken (nextPromise c) # replicate (length others) (AwaitThenRetry (nextPromise c)) \<and>
         siteMap (snd (runEvents url_host c (asEvents (first # others)))) k
           = Some (InFlight (nextPromise c)) \<and>
         map (callerOutcome settles) (fst (runEvents url_host c (asEvents (first # others))))
           = (case settles (nextPromise c) of
                Fulfilled (Some r) \<Rightarrow> ReplacedBy r # replicate (length others) ReissuesOriginal
              | Fulfilled None \<Rightarrow> KeepsOriginal # replicate (length others) ReissuesOriginal
              | Rejected e \<Rightarrow> replicate (Suc (length others)) (FailsWith e)
              | Unsettled \<Rightarrow> replicate (Suc (length others)) WaitsForever)"
proof -
  obtain request response where f: "first = (request, response)" by (cases first)
  define c1 where "c1 = snd (startAttempt c k)"
  have start: "handleResponse url_host c request response = (ReturnToken (nextPromise c), c1)"
    using handleResponse_starts [OF assms(1)] assms(2) f
    by (simp add: startAttempt_def c1_def Let_def)
  have rec: "siteMap c1 k = Some (InFlight (nextPromise c))"
    by (simp add: c1_def startAttempt_def Let_def)
  have rest: "runEvents url_host c1 (asEvents others)
                = (replicate (length others) (AwaitThenRetry (nextPromise c)), c1)"
    using runEvents_waiters [OF rec assms(3)] .
  have run: "runEvents url_host c (asEvents (first # others))
               = (ReturnToken (nextPromise c) # replicate (length others) (AwaitThenRetry (nextPromise c)), c1)"
    using start rest f by (simp add: asEvents_def)
  show ?thesis
    unfolding run using rec
    by (simp split: promise.splits option.splits)
qed

theorem C2_single_attempt_witness:
  "siteMap createResponseHandler ''example.com'' = None \<and>
   unauthorized401 exampleHost ''example.com'' (plainCall ''https://example.com/a'' 401) \<and>
   unauthorized401 exampleHost ''example.com'' (plainCall ''https://example.com/b'' 403) \<and>
   fst (runEvents exampleHost createResponseHandler
          (asEvents [plainCall ''https://example.com/a'' 401, plainCall ''https://example.com/b'' 403]))
     = [ReturnToken 0, AwaitThenRetry 0] \<and>
   map (callerOutcome loggedIn)
       (fst (runEvents exampleHost createResponseHandler
          (asEvents [plainCall ''https://example.com/a'' 401, plainCall ''https://example.com/b'' 403])))
     = [ReplacedBy (exampleResponse 200), ReissuesOriginal]"
proof -
  have h1: "siteMap createResponseHandler ''example.com'' = None"
    by (simp add: createResponseHandler_def)
  have h2: "unauthorized401 exampleHost ''example.com'' (plainCall ''https://example.com/a'' 401)"
    by (simp add: unauthorized401_def plainCall_def exampleRequest_def exampleResponse_def
          exampleHost_def siteKey_def hasAuthorization_def)
  have h3: "\<forall>x \<in> set [plainCall ''https://example.com/b'' 403].
              unauthorized401 exampleHost ''example.com'' x"
    by (simp add: unauthorized401_def plainCall_def exampleRequest_def exampleResponse_def
          exampleHost_def siteKey_def hasAuthorization_def)
  have n: "nextPromise createResponseHandler = 0"
    by (simp add: createResponseHandler_def)
  show ?thesis
    using h1 h2 h3 C2_single_attempt [OF h1 h2 h3, of loggedIn]
    unfolding n by (simp add: loggedIn_def)
qed

text \<open>
  C2 as stated asks for one outcome for all callers, all retrying or all keeping the
  original 401/403. With two calls and an attempt that yields nothing, the initiator
  keeps the original response and the waiter re-issues the request.
\<close>

theorem C2_outcomes_differ:
  "map (callerOutcome noToken)
       (fst (runEvents exampleHost createResponseHandler
          [Response401 (exampleRequest ''https://example.com/a'' (Some [])) (exampleResponse 401),
           Response401 (exampleRequest ''https://example.com/a'' (Some [])) (exampleResponse 401)]))
     = [KeepsOriginal, ReissuesOriginal]"
  by (simp add: handleResponse_def startAttempt_def createResponseHandler_def Let_def
        exampleRequest_def exampleResponse_def exampleHost_def siteKey_def hasAuthorization_def
        noToken_def)

text \<open>
  C3, as the code has it. For a 401/403 response whose request carries an
  \<^verbatim>\<open>Authorization\<close> header, the handler does not look at the site's record: it starts a
  new attempt and records it as in flight. The record decides for the requests without
  that header: in flight, the handler waits on the pending attempt and then retries;
  \<^verbatim>\<open>Retry\<close>, it retries at once; \<^verbatim>\<open>NotSupported\<close>, it declines; no record, it starts
  an attempt.
\<close>

theorem C3_authorization_starts_attempt:
  assumes "statusCode response = 401 \<or> statusCode response = 403"
    and "headers request = Some hs"
  shows "(hasAuthorization hs \<longrightarrow>
            fst (handleResponse url_host c request response) = ReturnToken (nextPromise c) \<and>
            siteMap (snd (handleResponse url_host c request response))
                (siteKey (url_host (url request)))
              = Some (InFlight (nextPromise c))) \<and>
         (\<not> hasAuthorization hs \<longrightarrow>
            (case siteMap c (siteKey (url_host (url request))) of
               Some (InFlight p) \<Rightarrow>
                 handleResponse url_host c request response = (AwaitThenRetry p, c)
             | Some Retry \<Rightarrow> handleResponse url_host c request response = (RetryNow, c)
             | Some NotSupported \<Rightarrow>
                 handleResponse url_host c request response = (ReturnUndefined, c)
             | None \<Rightarrow>
                 fst (handleResponse url_host c request response) = ReturnToken (nextPromise c) \<and>
                 siteMap (snd (handleResponse url_host c request response))
                     (siteKey (url_host (url request)))
                   = Some (InFlight (nextPromise c))))"
  using assms
  by (auto simp: handleResponse_def startAttempt_def Let_def
           split: option.splits SiteRecord.splits)

theorem C3_authorization_starts_attempt_witness:
  "(statusCode (exampleResponse 401) = 401 \<or> statusCode (exampleResponse 401) = 403) \<and>
   headers (exampleRequest ''https://example.com/a'' (Some [bearer])) = Some [bearer] \<and>
   hasAuthorization [bearer] \<and>
   siteMap retryRecorded ''example.com'' = Some Retry \<and>
   fst (handleResponse exampleHost retryRecorded
          (exampleRequest ''https://example.com/a'' (Some [bearer])) (exampleResponse 401))
     = ReturnToken 0 \<and>
   siteMap (snd (handleResponse exampleHost retryRecorded
          (exampleRequest ''https://example.com/a'' (Some [bearer])) (exampleResponse 401)))
       ''example.com''
     = Some (InFlight 0)"
proof -
  have h1: "statusCode (exampleResponse 401) = 401 \<or> statusCode (exampleResponse 401) = 403"
    by (simp add: exampleResponse_def)
  have h2: "headers (exampleRequest ''https://example.com/a'' (Some [bearer])) = Some [bearer]"
    by (simp add: exampleRequest_def)
  have a: "hasAuthorization [bearer]"
    by (simp add: hasAuthorization_def bearer_def)
  have k: "siteKey (exampleHost (url (exampleRequest ''https://example.com/a'' (Some [bearer]))))
             = ''example.com''"
    by (simp add: siteKey_def exampleHost_def exampleRequest_def)
  have n: "nextPromise retryRecorded = 0"
    by (simp add: retryRecorded_def createResponseHandler_def)
  have r: "siteMap retryRecorded ''example.com'' = Some Retry"
    by (simp add: retryRecorded_def)
  show ?thesis
    using h1 h2 a r C3_authorization_starts_attempt [OF h1 h2, of exampleHost retryRecorded]
    unfolding k n by simp
qed

text \<open>
  C3 as stated says that a request with an \<^verbatim>\<open>Authorization\<close> header never starts an
  attempt and, with the record at \<^verbatim>\<open>Retry\<close>, is retried at once. After one successful
  attempt for the site (record \<^verbatim>\<open>Retry\<close>), a 401 for a request with the header starts a
  second attempt.
\<close>

theorem C3_authorization_bypasses_record:
  "siteMap (snd (runEvents exampleHost createResponseHandler
       [Response401 (exampleRequest ''https://example.com/a'' (Some [])) (exampleResponse 401),
        TokenSettled 0 (Fulfilled (Some (exampleResponse 200)))])) ''example.com''
     = Some Retry \<and>
   fst (runEvents exampleHost createResponseHandler
       [Response401 (exampleRequest ''https://example.com/a'' (Some [])) (exampleResponse 401),
        TokenSettled 0 (Fulfilled (Some (exampleResponse 200))),
        Response401 (exampleRequest ''https://example.com/a'' (Some [bearer])) (exampleResponse 401)])
     = [ReturnToken 0, ReturnToken 1]"
  by (simp add: handleResponse_def startAttempt_def tokenSettled_def createResponseHandler_def
        Let_def exampleRequest_def exampleResponse_def exampleHost_def siteKey_def
        hasAuthorization_def bearer_def)

text \<open>
  C4, as the code has it. An attempt that the handler started, in a coordinator reached
  from the initial one by any events, and that settles after any further events: when it
  is fulfilled with a response the site's record becomes \<^verbatim>\<open>Retry\<close>, when it is
  fulfilled with nothing the record becomes \<^verbatim>\<open>NotSupported\<close>. When it is rejected the
  map is left as it is; the initiator and the waiters on that promise are then rejected
  with the attempt's error.
\<close>

theorem C4_record_updated_on_fulfilment:
  assumes "c = snd (runEvents url_host createResponseHandler before)"
    and "handleResponse url_host c request response = (ReturnToken p, c1)"
    and "\<forall>ev \<in> set between. \<not> settlesPromise p ev"
    and "c2 = snd (runEvents url_host c1 between)"
  shows "siteMap (tokenSettled c2 p (Fulfilled (Some r))) (siteKey (url_host (url request)))
           = Some Retry \<and>
         siteMap (tokenSettled c2 p (Fulfilled None)) (siteKey (url_host (url request)))
           = Some NotSupported \<and>
         siteMap (tokenSettled c2 p (Rejected e)) = siteMap c2 \<and>
         (settles p = Rejected e \<longrightarrow>
            callerOutcome settles (AwaitThenRetry p) = FailsWith e \<and>
            callerOutcome settles (ReturnToken p) = FailsWith e)"
proof -
  let ?site = "siteKey (url_host (url request))"
  have wf: "pendingBelow c"
    using assms(1) pendingBelow_runEvents [OF pendingBelow_initial] by simp
  have p: "p = nextPromise c" and c1: "c1 = snd (startAttempt c ?site)"
    using handleResponse_token [OF assms(2)] by simp_all
  have wf1: "pendingBelow c1"
    using pendingBelow_handleResponse [OF wf, of url_host request response] assms(2) by simp
  have reg: "attempts c1 p = Some ?site"
    using p c1 by (simp add: startAttempt_def Let_def)
  have kept: "attempts c2 p = Some ?site"
    using attempts_runEvents [OF wf1 reg assms(3)] assms(4) by simp
  show ?thesis
    using kept by (simp add: tokenSettled_def)
qed

theorem C4_record_updated_on_fulfilment_witness:
  "createResponseHandler = snd (runEvents exampleHost createResponseHandler []) \<and>
   fst (handleResponse exampleHost createResponseHandler
          (exampleRequest ''https://example.com/a'' (Some [])) (exampleResponse 401))
     = ReturnToken 0 \<and>
   \<not> settlesPromise 0
       (Response401 (exampleRequest ''https://example.com/b'' (Some [])) (exampleResponse 403)) \<and>
   siteMap (tokenSettled
       (snd (runEvents exampleHost
          (snd (handleResponse exampleHost createResponseHandler
                  (exampleRequest ''https://example.com/a'' (Some [])) (exampleResponse 401)))
          [Response401 (exampleRequest ''https://example.com/b'' (Some [])) (exampleResponse 403)]))
       0 (Fulfilled (Some (exampleResponse 200)))) ''example.com''
     = Some Retry \<and>
   siteMap (tokenSettled
       (snd (runEvents exampleHost
          (snd (handleResponse exampleHost createResponseHandler
                  (exampleRequest ''https://example.com/a'' (Some [])) (exampleResponse 401)))
          [Response401 (exampleRequest ''https://example.com/b'' (Some [])) (exampleResponse 403)]))
       0 (Fulfilled None)) ''example.com''
     = Some NotSupported"
proof -
  let ?rq = "exampleRequest ''https://example.com/a'' (Some [])"
  let ?rs = "exampleResponse 401"
  let ?between = "[Response401 (exampleRequest ''https://example.com/b'' (Some [])) (exampleResponse 403)]"
  let ?c1 = "snd (handleResponse exampleHost createResponseHandler ?rq ?rs)"
  have h1: "createResponseHandler = snd (runEvents exampleHost createResponseHandler [])"
    by simp
  have f: "fst (handleResponse exampleHost createResponseHandler ?rq ?rs) = ReturnToken 0"
    by (simp add: handleResponse_def startAttempt_def createResponseHandler_def Let_def
          exampleRequest_def exampleResponse_def exampleHost_def siteKey_def hasAuthorization_def)
  have h2: "handleResponse exampleHost createResponseHandler ?rq ?rs = (ReturnToken 0, ?c1)"
    using f by (simp add: prod_eq_iff)
  have h3: "\<forall>ev \<in> set ?between. \<not> settlesPromise 0 ev"
    by simp
  have k: "siteKey (exampleHost (url ?rq)) = ''example.com''"
    by (simp add: siteKey_def exampleHost_def exampleRequest_def)
  show ?thesis
    using h1 f h3
          C4_record_updated_on_fulfilment [OF h1 h2 h3 refl,
            of "exampleResponse 200" "OtherError ''x''" noToken]
    unfolding k by simp
qed

text \<open>
  C4 as stated has the record updated on every failure path too. When the metadata
  request is rejected, \<^verbatim>\<open>acquireTokenAsync\<close> is rejected, and the record of the site is
  still the in-flight promise afterwards.
\<close>

theorem C4_rejection_leaves_record:
  "fst (acquireTokenAsync exampleResolve refusedConnection noLogin
          (exampleRequest ''https://example.com/a'' (Some [])) (exampleResponse 401) 0)
     = Rejected (OtherError ''ECONNREFUSED'') \<and>
   siteMap (snd (runEvents exampleHost createResponseHandler
       [Response401 (exampleRequest ''https://example.com/a'' (Some [])) (exampleResponse 401),
        TokenSettled 0 (Rejected (OtherError ''ECONNREFUSED''))])) ''example.com''
     = Some (InFlight 0)"
  by (simp add: acquireTokenAsync_def refusedConnection_def
        handleResponse_def startAttempt_def tokenSettled_def createResponseHandler_def
        Let_def exampleRequest_def exampleResponse_def exampleHost_def siteKey_def
        hasAuthorization_def)

text \<open>
  C10. For a 401 or 403 response whose request has no \<^verbatim>\<open>headers\<close> property, the handler
  throws a TypeError at the lookup of line 68 instead of returning: the coordinator is
  unchanged and the caller's promise is rejected with that error. Without a template the
  pipeline passes the caller's request on as it is, so a request built without headers
  has none.
\<close>

theorem C10_missing_headers_throw:
  assumes "statusCode response = 401 \<or> statusCode response = 403"
    and "headers request = None"
  shows "handleResponse url_host c request response = (Throws TypeError, c) \<and>
         callerOutcome settles (fst (handleResponse url_host c request response))
           = FailsWith TypeError \<and>
         headers (effectiveRequest None request) = None"
  using assms
  by (auto simp: handleResponse_def Let_def effectiveRequest_def)

theorem C10_missing_headers_throw_witness:
  "(statusCode (exampleResponse 401) = 401 \<or> statusCode (exampleResponse 401) = 403) \<and>
   headers (exampleRequest ''https://example.com/a'' None) = None \<and>
   handleResponse exampleHost createResponseHandler
       (exampleRequest ''https://example.com/a'' None) (exampleResponse 401)
     = (Throws TypeError, createResponseHandler)"
proof -
  have h1: "statusCode (exampleResponse 401) = 401 \<or> statusCode (exampleResponse 401) = 403"
    by (simp add: exampleResponse_def)
  have h2: "headers (exampleRequest ''https://example.com/a'' None) = None"
    by (simp add: exampleRequest_def)
  show ?thesis
    using h1 h2 C10_missing_headers_throw [OF h1 h2, of exampleHost createResponseHandler noToken]
    by simp
qed

section \<open>Properties of the transport handler\<close>

lemma prepareBody_url: "url (snd (prepareBody stringify request)) = url request"
  by (simp add: prepareBody_def split: option.splits HttpBody.splits)

lemma handleRequestAsync_other_scheme:
  assumes "protocol (url_parse rt (url request)) \<noteq> Some ''http:''"
    and "protocol (url_parse rt (url request)) \<noteq> Some ''https:''"
  shows "handleRequestAsync rt validateServerCert request w
           = (Unsettled, snd (prepareBody (JSON_stringify rt) request), w)"
proof -
  obtain b request' where pb: "prepareBody (JSON_stringify rt) request = (b, request')"
    by (cases "prepareBody (JSON_stringify rt) request")
  have u: "url request' = url request"
    using prepareBody_url [of "JSON_stringify rt" request] pb by simp
  show ?thesis
    using assms by (simp add: handleRequestAsync_def pb u Let_def)
qed

text \<open>
  C7. Claim: for a URL whose scheme is neither http nor https the transport handler
  returns no value, so that the pipeline tries the next request handler. In the code the
  \<^verbatim>\<open>return undefined\<close> of line 171 leaves the executor of the promise the handler has
  already returned, and neither \<^verbatim>\<open>resolve\<close> nor \<^verbatim>\<open>reject\<close> is called: the promise
  never settles. It is not fulfilled with no value, and a pipeline with this handler
  first stays at its \<^verbatim>\<open>await\<close>: the handlers behind it are not invoked and the call
  neither returns nor fails.
\<close>

theorem C7_unsupported_scheme_never_settles:
  assumes "protocol (url_parse rt (url (effectiveRequest (requestTemplate this) request)))
             \<noteq> Some ''http:''"
    and "protocol (url_parse rt (url (effectiveRequest (requestTemplate this) request)))
             \<noteq> Some ''https:''"
    and "requestChain store this = handleRequestAsync rt validateServerCert # rest"
  shows "fst (handleRequestAsync rt validateServerCert
                (effectiveRequest (requestTemplate this) request) w) = Unsettled \<and>
         fst (handleRequestAsync rt validateServerCert
                (effectiveRequest (requestTemplate this) request) w) \<noteq> Fulfilled None \<and>
         requestAsync store this request w
           = (Unsettled,
              [LogStart (httpMethod (effectiveRequest (requestTemplate this) request))
                        (url (effectiveRequest (requestTemplate this) request)),
               CallRequestHandler 0],
              w, store)"
  using handleRequestAsync_other_scheme [OF assms(1) assms(2), of validateServerCert w] assms(3)
  by (simp add: requestAsync_def Let_def)

theorem C7_unsupported_scheme_never_settles_witness:
  "protocol (url_parse exampleRuntime
      (url (effectiveRequest (requestTemplate (examplePipeline None))
              (exampleRequest ''ftp://example.com/a'' None)))) = Some ''ftp:'' \<and>
   requestChain (exampleStore [handleRequestAsync exampleRuntime None, responding 200] [])
       (examplePipeline None)
     = handleRequestAsync exampleRuntime None # [responding 200] \<and>
   requestAsync (exampleStore [handleRequestAsync exampleRuntime None, responding 200] [])
       (examplePipeline None) (exampleRequest ''ftp://example.com/a'' None) 0
     = (Unsettled, [LogStart GET ''ftp://example.com/a'', CallRequestHandler 0], 0,
        exampleStore [handleRequestAsync exampleRuntime None, responding 200] [])"
proof -
  let ?rq = "effectiveRequest (requestTemplate (examplePipeline None))
               (exampleRequest ''ftp://example.com/a'' None)"
  have rq: "?rq = exampleRequest ''ftp://example.com/a'' None"
    by (simp add: effectiveRequest_def examplePipeline_def)
  have p: "protocol (url_parse exampleRuntime (url ?rq)) = Some ''ftp:''"
    unfolding rq by (simp add: exampleRuntime_def exampleUrlParse_def exampleRequest_def)
  have h1: "protocol (url_parse exampleRuntime (url ?rq)) \<noteq> Some ''http:''"
    unfolding p by simp
  have h2: "protocol (url_parse exampleRuntime (url ?rq)) \<noteq> Some ''https:''"
    unfolding p by simp
  have h3: "requestChain (exampleStore [handleRequestAsync exampleRuntime None, responding 200] [])
              (examplePipeline None)
            = handleRequestAsync exampleRuntime None # [responding 200]"
    by (simp add: requestChain_def exampleStore_def examplePipeline_def arrayAt_def)
  show ?thesis
    using p h3 C7_unsupported_scheme_never_settles [OF h1 h2 h3, of 0]
    unfolding rq by (simp add: exampleRequest_def)
qed

section \<open>Properties of the certificate information\<close>

lemma objectToString_loop_concat:
  "objectToString_loop str obj = str @ concat (map (\<lambda>(k, v). k @ ''='' @ v @ '', '') obj)"
  by (induction obj arbitrary: str) auto

lemma concat_items_joinWith:
  "obj \<noteq> [] \<Longrightarrow>
   concat (map (\<lambda>(k, v). k @ ''='' @ v @ '', '') obj)
     = joinWith '', '' (map (\<lambda>(k, v). k @ ''='' @ v) obj) @ '', ''"
proof (induction obj)
  case Nil
  then show ?case by simp
next
  case (Cons x obj)
  show ?case
  proof (cases obj)
    case Nil
    then show ?thesis by (simp split: prod.splits)
  next
    case (Cons y ys)
    then show ?thesis
      using Cons.IH by (simp split: prod.splits)
  qed
qed

lemma objectToString_flattenName: "objectToString obj = flattenName obj"
proof (cases obj)
  case Nil
  then show ?thesis by (simp add: objectToString_def flattenName_def)
next
  case (Cons x xs)
  then have ne: "obj \<noteq> []" by simp
  define items where "items = joinWith '', '' (map (\<lambda>(k, v). k @ ''='' @ v) obj)"
  have "objectToString_loop [] obj = items @ '', ''"
    unfolding items_def objectToString_loop_concat
    using concat_items_joinWith [OF ne] by simp
  then have "objectToString obj = take (length (items @ '', '') - 2) (items @ '', '')"
    by (simp only: objectToString_def Let_def)
  also have "\<dots> = items" by simp
  finally show ?thesis
    by (simp only: items_def flattenName_def)
qed

lemma length_sha1: "length (sha1 m) = 20"
  by (simp add: sha1_def bytes32_def split: prod.splits)

lemma length_hexEncode: "length (hexEncode bs) = 2 * length bs"
  by (induction bs) (simp_all add: hexEncode_def)

lemma isHexChar_hexDigit: "isHexChar (hexDigit n)"
proof -
  have "n mod 16 < length ''0123456789abcdef''" by simp
  then have "''0123456789abcdef'' ! (n mod 16) \<in> set ''0123456789abcdef''"
    by (rule nth_mem)
  then show ?thesis
    by (simp only: isHexChar_def hexDigit_def)
qed

lemma list_all_hexEncode: "list_all isHexChar (hexEncode bs)"
  by (induction bs) (simp_all add: hexEncode_def isHexChar_hexDigit)

text \<open>
  C8. \<open>toCertificateInfo\<close> is a function of the certificate alone. Its subject and
  issuer names are the \<^verbatim>\<open>key=value\<close> items of the distinguished name joined by a comma
  and a space; its thumbprint is the hexadecimal encoding of the SHA-1 digest of the raw
  bytes, 40 characters, each a hexadecimal digit.
\<close>

theorem C8_certificate_info:
  "subjectName (toCertificateInfo peerCert) = flattenName (subject peerCert) \<and>
   issuerName (toCertificateInfo peerCert) = flattenName (issuer peerCert) \<and>
   thumbprint (toCertificateInfo peerCert) = hexEncode (sha1 (raw peerCert)) \<and>
   length (thumbprint (toCertificateInfo peerCert)) = 40 \<and>
   list_all isHexChar (thumbprint (toCertificateInfo peerCert))"
  by (simp add: toCertificateInfo_def objectToString_flattenName length_hexEncode length_sha1
        list_all_hexEncode)

theorem C8_certificate_info_witness:
  "subjectName (toCertificateInfo exampleCertificate) = ''CN=a'' \<and>
   issuerName (toCertificateInfo exampleCertificate) = ''CN=b'' \<and>
   length (thumbprint (toCertificateInfo exampleCertificate)) = 40"
proof -
  have s: "flattenName (subject exampleCertificate) = ''CN=a''"
    by (simp add: exampleCertificate_def flattenName_def)
  have i: "flattenName (issuer exampleCertificate) = ''CN=b''"
    by (simp add: exampleCertificate_def flattenName_def)
  show ?thesis
    using C8_certificate_info [of exampleCertificate]
    unfolding s i by blast
qed

section \<open>Properties of the handler arrays\<close>

lemma newHttpPipeline_refs:
  assumes "newHttpPipeline store rh rsh = (this, store1)"
  shows "private_requestHandlers this = nextRef store"
    and "private_responseHandlers this = Suc (nextRef store)"
    and "requestArrays store1
           = (requestArrays store)(nextRef store \<mapsto>
                (case rh of Some a \<Rightarrow> arrayAt (requestArrays store) a | None \<Rightarrow> []))"
    and "responseArrays store1
           = (responseArrays store)(Suc (nextRef store) \<mapsto>
                (case rsh of Some a \<Rightarrow> arrayAt (responseArrays store) a | None \<Rightarrow> []))"
  using assms
  by (auto simp: newHttpPipeline_def Let_def split: option.splits)

lemma requestAsync_store: "snd (snd (snd (requestAsync store this request w))) = store"
  by (simp add: requestAsync_def Let_def split: prod.splits promise.splits option.splits)

text \<open>
  C9, as the code has it. The constructor copies the elements of its arguments into two
  new arrays, so a later push onto an array that existed before (the arguments included)
  does not reach the pipeline's chains, and \<^verbatim>\<open>requestAsync\<close> leaves the store as it is.
  The two accessors return the pipeline's own arrays: a push through the reference an
  accessor returned appends to the pipeline's chain.
\<close>

theorem C9_chains_fixed_but_shared:
  assumes "newHttpPipeline store rh rsh = (this, store1)"
    and "a < nextRef store"
  shows "requestChain store1 this
           = (case rh of Some r \<Rightarrow> arrayAt (requestArrays store) r | None \<Rightarrow> []) \<and>
         responseChain store1 this
           = (case rsh of Some r \<Rightarrow> arrayAt (responseArrays store) r | None \<Rightarrow> []) \<and>
         requestChain (pushRequestHandler store1 a h) this = requestChain store1 this \<and>
         responseChain (pushResponseHandler store1 a g) this = responseChain store1 this \<and>
         snd (snd (snd (requestAsync store1 this request w))) = store1 \<and>
         requestChain (pushRequestHandler store1 (requestHandlers this) h) this
           = requestChain store1 this @ [h] \<and>
         responseChain (pushResponseHandler store1 (responseHandlers this) g) this
           = responseChain store1 this @ [g]"
proof -
  note refs = newHttpPipeline_refs [OF assms(1)]
  have ne1: "a \<noteq> nextRef store" and ne2: "a \<noteq> Suc (nextRef store)"
    using assms(2) by simp_all
  have c1: "requestChain store1 this
              = (case rh of Some r \<Rightarrow> arrayAt (requestArrays store) r | None \<Rightarrow> [])"
    by (simp add: requestChain_def arrayAt_def refs)
  have c2: "responseChain store1 this
              = (case rsh of Some r \<Rightarrow> arrayAt (responseArrays store) r | None \<Rightarrow> [])"
    by (simp add: responseChain_def arrayAt_def refs)
  have c3: "requestChain (pushRequestHandler store1 a h) this = requestChain store1 this"
    using ne1 by (simp add: requestChain_def pushRequestHandler_def arrayAt_def refs)
  have c4: "responseChain (pushResponseHandler store1 a g) this = responseChain store1 this"
    using ne2 by (simp add: responseChain_def pushResponseHandler_def arrayAt_def refs)
  have c5: "snd (snd (snd (requestAsync store1 this request w))) = store1"
    by (rule requestAsync_store)
  have c6: "requestChain (pushRequestHandler store1 (requestHandlers this) h) this
              = requestChain store1 this @ [h]"
    by (simp add: requestChain_def pushRequestHandler_def requestHandlers_def arrayAt_def)
  have c7: "responseChain (pushResponseHandler store1 (responseHandlers this) g) this
              = responseChain store1 this @ [g]"
    by (simp add: responseChain_def pushResponseHandler_def responseHandlers_def arrayAt_def)
  show ?thesis
    using c1 c2 c3 c4 c5 c6 c7 by simp
qed

theorem C9_chains_fixed_but_shared_witness:
  "newHttpPipeline (exampleStore [declining] []) (Some 0) (Some 1)
     = (fst builtPipeline, snd builtPipeline) \<and>
   (0::nat) < nextRef (exampleStore [declining] []) \<and>
   length (requestChain (snd builtPipeline) (fst builtPipeline)) = 1 \<and>
   length (requestChain (pushRequestHandler (snd builtPipeline) 0 throwing) (fst builtPipeline)) = 1 \<and>
   length (requestChain
             (pushRequestHandler (snd builtPipeline) (requestHandlers (fst builtPipeline)) throwing)
             (fst builtPipeline)) = 2"
proof -
  have h1: "newHttpPipeline (exampleStore [declining] []) (Some 0) (Some 1)
              = (fst builtPipeline, snd builtPipeline)"
    by (simp add: builtPipeline_def)
  have h2: "(0::nat) < nextRef (exampleStore [declining] [])"
    by (simp add: exampleStore_def)
  have a: "arrayAt (requestArrays (exampleStore [declining] [])) 0 = [declining]"
    by (simp add: exampleStore_def arrayAt_def)
  show ?thesis
    using h1 h2 a
          C9_chains_fixed_but_shared [OF h1 h2, of throwing keeping
              "exampleRequest ''http://example.com/a'' None" 0]
    by simp
qed

text \<open>
  C9 as stated says that a caller cannot alter the chains through the values the
  accessors return. A pipeline built with one declining request handler fails with the
  "no handler" error; after a push of a responding handler through
  \<^verbatim>\<open>pipeline.requestHandlers\<close>, the same call of the same pipeline is answered by the
  pushed handler.
\<close>

theorem C9_push_through_accessor:
  "fst (requestAsync (snd builtPipeline) (fst builtPipeline)
          (exampleRequest ''http://example.com/a'' None) 0)
     = Rejected NoRequestHandler \<and>
   fst (requestAsync
          (pushRequestHandler (snd builtPipeline) (requestHandlers (fst builtPipeline))
             (responding 200))
          (fst builtPipeline) (exampleRequest ''http://example.com/a'' None) 0)
     = Fulfilled (exampleResponse 200)"
  by (simp add: builtPipeline_def newHttpPipeline_def exampleStore_def Let_def arrayAt_def
        requestAsync_def requestChain_def responseChain_def pushRequestHandler_def
        requestHandlers_def effectiveRequest_def declining_def responding_def)

end
